theory Spec2Isabelle
  imports Complex_Main "HOL-Library.Word"
begin

section \<open>JavaScript strings\<close>

text \<open>
  A JavaScript string is a sequence of UTF-16 code units. String literals of the source
  that are plain ASCII are written \<open>ascii ''...''\<close>; the code units of the Vietnamese
  literals are written out in hexadecimal.
\<close>

type_synonym jsstring = "16 word list"

definition ascii :: "string \<Rightarrow> jsstring" where
  "ascii s = map of_char s"

text \<open>Truthiness of a \<open>string | null\<close> value: \<open>null\<close> and \<open>""\<close> are falsy.\<close>

definition truthy :: "jsstring option \<Rightarrow> bool" where
  "truthy v = (case v of None \<Rightarrow> False | Some s \<Rightarrow> s \<noteq> [])"

text \<open>
  \<open>String.prototype.trim\<close> removes WhiteSpace and LineTerminator code units from both ends
  (ECMAScript: TAB, VT, FF, SP, NBSP, ZWNBSP, the Unicode category Zs; LF, CR, LS, PS).
\<close>

definition isLineTerminator :: "16 word \<Rightarrow> bool" where
  "isLineTerminator c = (c = 0x0A \<or> c = 0x0D \<or> c = 0x2028 \<or> c = 0x2029)"

definition isWhiteSpace :: "16 word \<Rightarrow> bool" where
  "isWhiteSpace c =
     (c = 0x09 \<or> c = 0x0B \<or> c = 0x0C \<or> c = 0x20 \<or> c = 0xA0 \<or> c = 0xFEFF \<or>
      c = 0x1680 \<or> (0x2000 \<le> c \<and> c \<le> 0x200A) \<or> c = 0x202F \<or> c = 0x205F \<or> c = 0x3000)"

definition trim :: "jsstring \<Rightarrow> jsstring" where
  "trim s =
     (let blank = (\<lambda>c. isWhiteSpace c \<or> isLineTerminator c)
      in rev (dropWhile blank (rev (dropWhile blank s))))"

definition startsWith :: "jsstring \<Rightarrow> jsstring \<Rightarrow> bool" where
  "startsWith s p = (take (length p) s = p)"

text \<open>\<open>s.substring(n)\<close> for a literal \<open>n \<ge> 0\<close>: the code units from index \<open>n\<close> on.\<close>

definition substring :: "jsstring \<Rightarrow> nat \<Rightarrow> jsstring" where
  "substring s n = drop n s"

text \<open>\<open>s.split('\n')\<close>: never empty, \<open>"".split('\n')\<close> is \<open>[""]\<close>.\<close>

fun split :: "jsstring \<Rightarrow> 16 word \<Rightarrow> jsstring list" where
  "split [] sep = [[]]"
| "split (c # cs) sep =
     (if c = sep then [] # split cs sep
      else (case split cs sep of
              l # ls \<Rightarrow> (c # l) # ls
            | [] \<Rightarrow> [[c]]))"

section \<open>MarkdownRenderer\<close>

text \<open>
  \<open>line.replace(/\*\*(.*?)\*\*/g, '<strong>$1</strong>')\<close>. After an opening \<open>**\<close> the lazy
  group takes the shortest run of code units that are not line terminators and is followed
  by \<open>**\<close>; \<open>find_close\<close> returns that run and the text after the closing \<open>**\<close>. Where no
  match starts at a position, the scan moves on by one code unit.
\<close>

fun find_close :: "jsstring \<Rightarrow> (jsstring \<times> jsstring) option" where
  "find_close [] = None"
| "find_close (c # cs) =
     (if c = 0x2A \<and> (case cs of d # _ \<Rightarrow> d = 0x2A | [] \<Rightarrow> False) then Some ([], tl cs)
      else if isLineTerminator c then None
      else (case find_close cs of
              None \<Rightarrow> None
            | Some (inner, rest) \<Rightarrow> Some (c # inner, rest)))"

lemma find_close_shorter: "find_close xs = Some (inner, rest) \<Longrightarrow> length rest < length xs"
proof (induction xs arbitrary: inner rest)
  case Nil
  then show ?case by simp
next
  case (Cons c cs)
  then show ?case
    by (cases cs) (auto split: if_splits option.splits prod.splits)
qed

function replace_bold :: "jsstring \<Rightarrow> jsstring" where
  "replace_bold [] = []"
| "replace_bold [c] = [c]"
| "replace_bold (c # d # cs) =
     (if c = 0x2A \<and> d = 0x2A then
        (case find_close cs of
           Some (inner, rest) \<Rightarrow>
             ascii ''<strong>'' @ inner @ ascii ''</strong>'' @ replace_bold rest
         | None \<Rightarrow> c # replace_bold (d # cs))
      else c # replace_bold (d # cs))"
  by pat_completeness auto
termination
  by (relation "measure length") (auto dest: find_close_shorter)

text \<open>
  The blocks \<open>renderLine\<close> produces, by tag; the payload is the element's inner HTML.
  React keys and class names are fixed per tag and left out. \<open>None\<close> is \<open>null\<close>.
\<close>

datatype element =
    H1 jsstring
  | H2 jsstring
  | H3 jsstring
  | Li jsstring
  | P jsstring
  | Ul "element option list"

definition renderLine :: "jsstring \<Rightarrow> element option" where
  "renderLine line =
     (let boldedLine = replace_bold line in
      if startsWith line (ascii ''### '') then Some (H3 (substring boldedLine 4))
      else if startsWith line (ascii ''## '') then Some (H2 (substring boldedLine 3))
      else if startsWith line (ascii ''# '') then Some (H1 (substring boldedLine 2))
      else if startsWith line (ascii ''* '') then Some (Li (substring boldedLine 2))
      else if trim line = [] then None
      else Some (P boldedLine))"

text \<open>\<open>React.Children.toArray\<close> drops \<open>null\<close> children.\<close>

definition toArray :: "element option list \<Rightarrow> element option list" where
  "toArray children = filter (\<lambda>c. c \<noteq> None) children"

text \<open>
  One iteration of the \<open>for\<close> loop over the lines, on the pair \<open>(elements, inList)\<close>.
  \<open>elements[elements.length - 1]\<close> is \<open>undefined\<close> on an empty array.
\<close>

definition loop_body :: "element option list \<times> bool \<Rightarrow> jsstring \<Rightarrow> element option list \<times> bool" where
  "loop_body st line =
     (case st of (elements, inList) \<Rightarrow>
        let isListItem = startsWith line (ascii ''* '') in
        if isListItem \<and> \<not> inList then
          (elements @ [Some (Ul [renderLine line])], True)
        else if isListItem \<and> inList then
          (case (if elements = [] then None else last elements) of
             Some (Ul children) \<Rightarrow>
               (butlast elements @ [Some (Ul (toArray children @ [renderLine line]))], inList)
           | _ \<Rightarrow> (elements, inList))
        else (elements @ [renderLine line], False))"

definition render_lines :: "jsstring list \<Rightarrow> element option list" where
  "render_lines lines = fst (foldl loop_body ([], False) lines)"

definition MarkdownRenderer :: "jsstring \<Rightarrow> element option list" where
  "MarkdownRenderer content = render_lines (split content 0x0A)"

section \<open>Session key store (\<open>useApiKey\<close>)\<close>

text \<open>
  The \<open>sessionStorage\<close> entry \<open>'gemini-api-key'\<close>, read through \<open>JSON.parse\<close>.
  \<open>Cred key timestamp\<close> is the text \<open>saveApiKey\<close> writes: an object with a string \<open>key\<close> and
  a numeric \<open>timestamp\<close> (integer milliseconds, as \<open>Date.now()\<close> returns; differences of
  such values are exact). \<open>Blank\<close> is the empty string, which \<open>if (item)\<close> skips. \<open>Corrupt\<close> is
  any other text: \<open>JSON.parse\<close> or the destructuring throws, or the comparison with a
  missing timestamp is false; both paths remove the entry and set no key.
\<close>

datatype stored = Blank | Corrupt | Cred jsstring int

definition SESSION_TIMEOUT_MS :: int where
  "SESSION_TIMEOUT_MS = 30 * 60 * 1000"

section \<open>Workflow state\<close>

datatype step = API_KEY | UPLOAD | CONFIRM | DIAGNOSE | GOAL

record jsfile =
  ftype :: jsstring
  fname :: jsstring

text \<open>The three asynchronous calls a handler can be suspended in.\<close>

datatype call = Identify | Analyze | Advise

text \<open>
  The \<open>useState\<close> cells of \<open>useApiKey\<close> and \<open>App\<close>, followed by the two pieces of the
  environment the handlers act on: the \<open>sessionStorage\<close> entry and the handler that is
  suspended at an \<open>await\<close>, if any.
\<close>

record app =
  apiKey :: "jsstring option"
  currentStep :: step
  imageFiles :: "jsfile option list"
  imageDataUrls :: "jsstring option list"
  plantName :: jsstring
  healthAnalysis :: jsstring
  goalAnalysis :: jsstring
  userGoal :: jsstring
  loadingMessage :: "jsstring option"
  error :: "jsstring option"
  storage :: "stored option"
  inflight :: "call option"

definition initial :: "stored option \<Rightarrow> app" where
  "initial item =
     \<lparr> apiKey = None, currentStep = UPLOAD,
       imageFiles = [None, None], imageDataUrls = [None, None],
       plantName = [], healthAnalysis = [], goalAnalysis = [], userGoal = [],
       loadingMessage = None, error = None,
       storage = item, inflight = None \<rparr>"

text \<open>The mount effect of \<open>useApiKey\<close>, run at time \<open>now\<close>.\<close>

definition useApiKey_effect :: "int \<Rightarrow> app \<Rightarrow> app" where
  "useApiKey_effect now s =
     (case storage s of
        None \<Rightarrow> s
      | Some Blank \<Rightarrow> s
      | Some Corrupt \<Rightarrow> s\<lparr>storage := None\<rparr>
      | Some (Cred key timestamp) \<Rightarrow>
          if now - timestamp < SESSION_TIMEOUT_MS then s\<lparr>apiKey := Some key\<rparr>
          else s\<lparr>storage := None\<rparr>)"

text \<open>
  The effect of \<open>App\<close> with dependency \<open>[apiKey]\<close>: it runs after a render in which \<open>apiKey\<close>
  differs from the value \<open>before\<close> of the previous render.
\<close>

definition apiKey_changed :: "jsstring option \<Rightarrow> app \<Rightarrow> app" where
  "apiKey_changed before s =
     (if apiKey s = before then s
      else if \<not> truthy (apiKey s) then s\<lparr>currentStep := API_KEY\<rparr>
      else s\<lparr>currentStep := UPLOAD\<rparr>)"

text \<open>
  Mounting: both effects run after the first render, the one of \<open>App\<close> with the \<open>apiKey\<close> of
  that render (\<open>null\<close>), so it sets \<open>API_KEY\<close>; then it runs again if a key was loaded.
\<close>

definition mount :: "stored option \<Rightarrow> int \<Rightarrow> app" where
  "mount item now =
     apiKey_changed None ((useApiKey_effect now (initial item))\<lparr>currentStep := API_KEY\<rparr>)"

definition saveApiKey :: "jsstring \<Rightarrow> int \<Rightarrow> app \<Rightarrow> app" where
  "saveApiKey key now s =
     (if key \<noteq> [] then
        apiKey_changed (apiKey s) (s\<lparr>storage := Some (Cred key now), apiKey := Some key\<rparr>)
      else s)"

text \<open>\<open>handleSubmit\<close> of \<open>ApiKeyInput\<close>; \<open>key\<close> is the content of the input field.\<close>

definition handleSubmit :: "jsstring \<Rightarrow> int \<Rightarrow> app \<Rightarrow> app" where
  "handleSubmit key now s = (if trim key \<noteq> [] then saveApiKey (trim key) now s else s)"

section \<open>Request formatter (\<open>geminiService\<close>)\<close>

text \<open>
  The instruction texts are fixed templates; a prompt is represented by its template and
  the values interpolated into it.
\<close>

datatype prompt =
    IdentifyPrompt
  | HealthPrompt jsstring
  | AdvicePrompt jsstring jsstring jsstring

datatype part = InlineData jsstring jsstring | TextPart prompt

datatype contents = Parts "part list" | Plain prompt

record request =
  credential :: "jsstring option"
  model :: jsstring
  contents :: contents
  temperature :: rat
  topP :: rat
  topK :: nat

datatype exn = Exn jsstring

text \<open>
  \<open>ai.models.generateContent\<close> is the external model: a request either rejects or yields
  the response text.
\<close>

type_synonym generateContent = "request \<Rightarrow> exn + jsstring"

definition identifyPlant :: "generateContent \<Rightarrow> jsstring option \<Rightarrow> part list \<Rightarrow> exn + jsstring" where
  "identifyPlant gen key imageParts =
     (case gen \<lparr> credential = key, model = ascii ''gemini-2.5-flash'',
                  contents = Parts (imageParts @ [TextPart IdentifyPrompt]),
                  temperature = 2 / 10, topP = 9 / 10, topK = 32 \<rparr> of
        Inl e \<Rightarrow> Inl e
      | Inr text \<Rightarrow> Inr (trim text))"

definition analyzePlantHealth ::
    "generateContent \<Rightarrow> jsstring option \<Rightarrow> part list \<Rightarrow> jsstring \<Rightarrow> exn + jsstring" where
  "analyzePlantHealth gen key imageParts name =
     (case gen \<lparr> credential = key, model = ascii ''gemini-2.5-flash'',
                  contents = Parts (imageParts @ [TextPart (HealthPrompt name)]),
                  temperature = 4 / 10, topP = 9 / 10, topK = 32 \<rparr> of
        Inl e \<Rightarrow> Inl e
      | Inr text \<Rightarrow> Inr text)"

definition getGoalOrientedAdvice ::
    "generateContent \<Rightarrow> jsstring option \<Rightarrow> jsstring \<Rightarrow> jsstring \<Rightarrow> jsstring \<Rightarrow> exn + jsstring" where
  "getGoalOrientedAdvice gen key name health goal =
     (case gen \<lparr> credential = key, model = ascii ''gemini-2.5-flash'',
                  contents = Plain (AdvicePrompt name health goal),
                  temperature = 5 / 10, topP = 9 / 10, topK = 40 \<rparr> of
        Inl e \<Rightarrow> Inl e
      | Inr text \<Rightarrow> Inr text)"

section \<open>The handlers of \<open>App\<close>\<close>

text \<open>The user-visible messages (string literals of the handlers).\<close>

definition msg_not_image :: jsstring where
  "msg_not_image =
     ascii ''Vui l'' @ [0xF2] @ ascii ''ng ch'' @ [0x1EC9] @ ascii '' ch'' @ [0x1ECD] @
     ascii ''n t'' @ [0x1EC7] @ ascii ''p h'' @ [0xEC] @ ascii ''nh '' @ [0x1EA3] @ ascii ''nh.''"

definition msg_no_image :: jsstring where
  "msg_no_image =
     ascii ''Vui l'' @ [0xF2] @ ascii ''ng t'' @ [0x1EA3] @ ascii ''i l'' @ [0xEA] @ ascii ''n '' @
     [0xED] @ ascii ''t nh'' @ [0x1EA5] @ ascii ''t m'' @ [0x1ED9] @ ascii ''t h'' @ [0xEC] @
     ascii ''nh '' @ [0x1EA3] @ ascii ''nh.''"

definition msg_identifying :: jsstring where
  "msg_identifying =
     [0x110] @ ascii ''ang nh'' @ [0x1EAD] @ ascii ''n d'' @ [0x1EA1] @ ascii ''ng c'' @ [0xE2] @
     ascii ''y c'' @ [0x1EE7] @ ascii ''a b'' @ [0x1EA1] @ ascii ''n...''"

definition msg_identify_failed :: jsstring where
  "msg_identify_failed =
     ascii ''Kh'' @ [0xF4] @ ascii ''ng th'' @ [0x1EC3] @ ascii '' nh'' @ [0x1EAD] @ ascii ''n d'' @
     [0x1EA1] @ ascii ''ng c'' @ [0xE2] @ ascii ''y. Vui l'' @ [0xF2] @ ascii ''ng th'' @ [0x1EED] @
     ascii '' l'' @ [0x1EA1] @ ascii ''i v'' @ [0x1EDB] @ ascii ''i h'' @ [0xEC] @ ascii ''nh '' @
     [0x1EA3] @ ascii ''nh kh'' @ [0xE1] @ ascii ''c.''"

definition msg_empty_name :: jsstring where
  "msg_empty_name =
     ascii ''T'' @ [0xEA] @ ascii ''n c'' @ [0xE2] @ ascii ''y kh'' @ [0xF4] @ ascii ''ng '' @
     [0x111, 0x1B0, 0x1EE3] @ ascii ''c '' @ [0x111, 0x1EC3] @ ascii '' tr'' @ [0x1ED1] @
     ascii ''ng.''"

definition msg_analyzing :: jsstring where
  "msg_analyzing =
     ascii ''AI '' @ [0x111] @ ascii ''ang ph'' @ [0xE2] @ ascii ''n t'' @ [0xED] @ ascii ''ch s'' @
     [0x1EE9] @ ascii ''c kh'' @ [0x1ECF] @ ascii ''e c'' @ [0xE2] @ ascii ''y tr'' @ [0x1ED3] @
     ascii ''ng...''"

definition msg_analysis_failed :: jsstring where
  "msg_analysis_failed =
     ascii ''Ph'' @ [0xE2] @ ascii ''n t'' @ [0xED] @ ascii ''ch kh'' @ [0xF4] @ ascii ''ng th'' @
     [0xE0] @ ascii ''nh c'' @ [0xF4] @ ascii ''ng. Vui l'' @ [0xF2] @ ascii ''ng th'' @ [0x1EED] @
     ascii '' l'' @ [0x1EA1] @ ascii ''i.''"

definition msg_empty_goal :: jsstring where
  "msg_empty_goal =
     ascii ''Vui l'' @ [0xF2] @ ascii ''ng nh'' @ [0x1EAD] @ ascii ''p m'' @ [0x1EE5] @
     ascii ''c ti'' @ [0xEA] @ ascii ''u ch'' @ [0x103] @ ascii ''m s'' @ [0xF3] @ ascii ''c.''"

definition msg_advising :: jsstring where
  "msg_advising =
     [0x110] @ ascii ''ang t'' @ [0x1EA1] @ ascii ''o l'' @ [0x1EDD] @ ascii ''i khuy'' @ [0xEA] @
     ascii ''n chuy'' @ [0xEA] @ ascii ''n s'' @ [0xE2] @ ascii ''u...''"

definition msg_advice_failed :: jsstring where
  "msg_advice_failed =
     ascii ''Kh'' @ [0xF4] @ ascii ''ng th'' @ [0x1EC3] @ ascii '' t'' @ [0x1EA1] @ ascii ''o l'' @
     [0x1EDD] @ ascii ''i khuy'' @ [0xEA] @ ascii ''n. Vui l'' @ [0xF2] @ ascii ''ng th'' @
     [0x1EED] @ ascii '' l'' @ [0x1EA1] @ ascii ''i.''"

definition resetWorkflow :: "app \<Rightarrow> app" where
  "resetWorkflow s =
     s\<lparr> imageFiles := [None, None], imageDataUrls := [None, None],
        plantName := [], healthAnalysis := [], goalAnalysis := [], userGoal := [],
        loadingMessage := None, error := None, currentStep := UPLOAD \<rparr>"

text \<open>
  \<open>copy[index] = v\<close> on a copy of an array: an index past the end extends the array, the
  holes read as \<open>undefined\<close> (falsy, \<open>None\<close> here).
\<close>

definition array_set :: "'a option list \<Rightarrow> nat \<Rightarrow> 'a option \<Rightarrow> 'a option list" where
  "array_set xs i v =
     (if i < length xs then xs[i := v] else xs @ replicate (i - length xs) None @ [v])"

text \<open>
  \<open>handleImageChange(index)\<close> on a change event whose first selected file is \<open>picked\<close>
  (\<open>None\<close> when the selection is empty). The \<open>FileReader\<close> it starts finishes later, in
  \<open>reader_onloadend\<close>.
\<close>

definition handleImageChange :: "nat \<Rightarrow> jsfile option \<Rightarrow> app \<Rightarrow> app" where
  "handleImageChange index picked s =
     (case picked of
        None \<Rightarrow> s
      | Some f \<Rightarrow>
          if \<not> startsWith (ftype f) (ascii ''image/'') then s\<lparr>error := Some msg_not_image\<rparr>
          else s\<lparr>imageFiles := array_set (imageFiles s) index (Some f)\<rparr>)"

text \<open>
  The \<open>onloadend\<close> callback copies the \<open>imageDataUrls\<close> of the render in which the file was
  picked (\<open>captured\<close>), not the current ones; \<open>result\<close> is \<open>reader.result\<close>.
\<close>

definition reader_onloadend :: "nat \<Rightarrow> jsstring option list \<Rightarrow> jsstring option \<Rightarrow> app \<Rightarrow> app" where
  "reader_onloadend index captured result s =
     s\<lparr>imageDataUrls := array_set captured index result\<rparr>"

text \<open>
  Each asynchronous handler is split at its first \<open>await\<close>. The first half runs on the click
  and returns the new state with the call it started, if any. The second half
  (\<open>_resume\<close>) runs when the awaited promises have settled: \<open>partsOutcome\<close> is the outcome of
  \<open>Promise.all\<close> over \<open>fileToGenerativePart\<close>, \<open>gen\<close> the behaviour of the external model for
  the request. The state updates of one half are committed together.
\<close>

definition handleIdentification :: "app \<Rightarrow> app \<times> call option" where
  "handleIdentification s =
     (if \<not> list_ex (\<lambda>f. f \<noteq> None) (imageFiles s) then
        (s\<lparr>error := Some msg_no_image\<rparr>, None)
      else (s\<lparr>loadingMessage := Some msg_identifying, error := None\<rparr>, Some Identify))"

definition handleIdentification_resume :: "exn + part list \<Rightarrow> generateContent \<Rightarrow> app \<Rightarrow> app" where
  "handleIdentification_resume partsOutcome gen s =
     (let attempt =
        (case partsOutcome of
           Inl e \<Rightarrow> Inl e
         | Inr imageParts \<Rightarrow> identifyPlant gen (apiKey s) imageParts);
          s' =
        (case attempt of
           Inr name \<Rightarrow> s\<lparr>plantName := name, currentStep := CONFIRM\<rparr>
         | Inl e \<Rightarrow> s\<lparr>error := Some msg_identify_failed\<rparr>)
      in s'\<lparr>loadingMessage := None\<rparr>)"

definition handleAnalysis :: "app \<Rightarrow> app \<times> call option" where
  "handleAnalysis s =
     (if trim (plantName s) = [] then (s\<lparr>error := Some msg_empty_name\<rparr>, None)
      else (s\<lparr>loadingMessage := Some msg_analyzing, error := None\<rparr>, Some Analyze))"

definition handleAnalysis_resume :: "exn + part list \<Rightarrow> generateContent \<Rightarrow> app \<Rightarrow> app" where
  "handleAnalysis_resume partsOutcome gen s =
     (let attempt =
        (case partsOutcome of
           Inl e \<Rightarrow> Inl e
         | Inr imageParts \<Rightarrow> analyzePlantHealth gen (apiKey s) imageParts (plantName s));
          s' =
        (case attempt of
           Inr result \<Rightarrow> s\<lparr>healthAnalysis := result, currentStep := DIAGNOSE\<rparr>
         | Inl e \<Rightarrow> s\<lparr>error := Some msg_analysis_failed\<rparr>)
      in s'\<lparr>loadingMessage := None\<rparr>)"

definition handleGoalAdvice :: "app \<Rightarrow> app \<times> call option" where
  "handleGoalAdvice s =
     (if trim (userGoal s) = [] then (s\<lparr>error := Some msg_empty_goal\<rparr>, None)
      else (s\<lparr>loadingMessage := Some msg_advising, error := None\<rparr>, Some Advise))"

definition handleGoalAdvice_resume :: "generateContent \<Rightarrow> app \<Rightarrow> app" where
  "handleGoalAdvice_resume gen s =
     (let s' =
        (case getGoalOrientedAdvice gen (apiKey s) (plantName s) (healthAnalysis s) (userGoal s) of
           Inr result \<Rightarrow> s\<lparr>goalAnalysis := result\<rparr>
         | Inl e \<Rightarrow> s\<lparr>error := Some msg_advice_failed\<rparr>)
      in s'\<lparr>loadingMessage := None\<rparr>)"

text \<open>The \<open>onReset\<close> closure \<open>renderContent\<close> gives to \<open>ErrorView\<close>.\<close>

definition errorView_onReset :: "app \<Rightarrow> app" where
  "errorView_onReset s = s\<lparr>error := None, currentStep := UPLOAD\<rparr>"

text \<open>The \<open>onNext\<close> closure \<open>renderContent\<close> gives to \<open>DiagnoseStep\<close>.\<close>

definition diagnose_onNext :: "app \<Rightarrow> app" where
  "diagnose_onNext s = s\<lparr>currentStep := GOAL\<rparr>"

section \<open>The workflow as a transition system\<close>

text \<open>Which view \<open>renderContent\<close> shows; the view decides which controls exist.\<close>

datatype view = LoadingView | ErrorView | StepView step

definition renderContent :: "app \<Rightarrow> view" where
  "renderContent s =
     (if truthy (loadingMessage s) then LoadingView
      else if truthy (error s) then ErrorView
      else StepView (currentStep s))"

text \<open>
  The events: the controls of the views, the completion of a file read and the settling
  of the call a handler waits for.
\<close>

datatype event =
    SubmitKey jsstring int
  | ImageChange nat "jsfile option"
  | ReaderDone nat "jsstring option list" "jsstring option"
  | NextUpload
  | SetPlantName jsstring
  | NextConfirm
  | NextDiagnose
  | SetUserGoal jsstring
  | AnalyzeGoal
  | Reset
  | Recover
  | Settled "exn + part list" generateContent

definition started :: "app \<times> call option \<Rightarrow> app" where
  "started r = (case r of (s, None) \<Rightarrow> s | (s, Some c) \<Rightarrow> s\<lparr>inflight := Some c\<rparr>)"

text \<open>An event whose control is not in the current view changes nothing.\<close>

fun fire :: "event \<Rightarrow> app \<Rightarrow> app" where
  "fire (SubmitKey key now) s =
     (if renderContent s = StepView API_KEY then handleSubmit key now s else s)"
| "fire (ImageChange index picked) s =
     (if renderContent s = StepView UPLOAD then handleImageChange index picked s else s)"
| "fire (ReaderDone index captured result) s = reader_onloadend index captured result s"
| "fire NextUpload s =
     (if renderContent s = StepView UPLOAD then started (handleIdentification s) else s)"
| "fire (SetPlantName name) s =
     (if renderContent s = StepView CONFIRM then s\<lparr>plantName := name\<rparr> else s)"
| "fire NextConfirm s =
     (if renderContent s = StepView CONFIRM then started (handleAnalysis s) else s)"
| "fire NextDiagnose s =
     (if renderContent s = StepView DIAGNOSE then diagnose_onNext s else s)"
| "fire (SetUserGoal goal) s =
     (if renderContent s = StepView GOAL then s\<lparr>userGoal := goal\<rparr> else s)"
| "fire AnalyzeGoal s =
     (if renderContent s = StepView GOAL then started (handleGoalAdvice s) else s)"
| "fire Reset s =
     (if renderContent s = StepView GOAL then resetWorkflow s else s)"
| "fire Recover s =
     (if renderContent s = ErrorView then errorView_onReset s else s)"
| "fire (Settled partsOutcome gen) s =
     (case inflight s of
        None \<Rightarrow> s
      | Some Identify \<Rightarrow> (handleIdentification_resume partsOutcome gen s)\<lparr>inflight := None\<rparr>
      | Some Analyze \<Rightarrow> (handleAnalysis_resume partsOutcome gen s)\<lparr>inflight := None\<rparr>
      | Some Advise \<Rightarrow> (handleGoalAdvice_resume gen s)\<lparr>inflight := None\<rparr>)"

definition run :: "event list \<Rightarrow> app \<Rightarrow> app" where
  "run evs s = foldl (\<lambda>s ev. fire ev s) s evs"

text \<open>The order of the steps.\<close>

fun rank :: "step \<Rightarrow> nat" where
  "rank API_KEY = 0"
| "rank UPLOAD = 1"
| "rank CONFIRM = 2"
| "rank DIAGNOSE = 3"
| "rank GOAL = 4"

text \<open>
  What holds between events. A message, when set, is a non-empty literal; a handler is
  suspended exactly while \<open>loadingMessage\<close> is set, and the step is still the one it was
  started from.
\<close>

fun origin :: "call \<Rightarrow> step" where
  "origin Identify = UPLOAD"
| "origin Analyze = CONFIRM"
| "origin Advise = GOAL"

definition consistent :: "app \<Rightarrow> bool" where
  "consistent s =
     (loadingMessage s \<noteq> Some [] \<and> error s \<noteq> Some [] \<and>
      (loadingMessage s = None \<or> error s = None) \<and>
      ((inflight s = None) = (loadingMessage s = None)) \<and>
      (inflight s = None \<or> map_option origin (inflight s) = Some (currentStep s)))"

section \<open>Sample data for concrete runs\<close>

definition sample_image :: jsfile where
  "sample_image = \<lparr> ftype = ascii ''image/png'', fname = ascii ''leaf.png'' \<rparr>"

definition answering :: generateContent where
  "answering = (\<lambda>_. Inr (ascii '' Rose ''))"

definition rejecting :: generateContent where
  "rejecting = (\<lambda>_. Inl (Exn (ascii ''503'')))"

definition to_confirm :: "event list" where
  "to_confirm =
     [SubmitKey (ascii '' k '') 0, ImageChange 0 (Some sample_image), NextUpload,
      Settled (Inr []) answering]"

definition to_goal :: "event list" where
  "to_goal = to_confirm @ [NextConfirm, Settled (Inr []) answering, NextDiagnose]"

section \<open>The markdown transform groups consecutive bullets\<close>

lemma loop_body_frame:
  assumes "els' \<noteq> [] \<or> \<not> il"
  shows "loop_body (els @ els', il) l = (els @ fst (loop_body (els', il) l), snd (loop_body (els', il) l))"
    and "fst (loop_body (els', il) l) \<noteq> [] \<or> \<not> snd (loop_body (els', il) l)"
  using assms
  by (auto simp: loop_body_def Let_def butlast_append split: option.splits element.splits)

lemma foldl_loop_frame:
  "els' \<noteq> [] \<or> \<not> il \<Longrightarrow>
   foldl loop_body (els @ els', il) ls =
     (els @ fst (foldl loop_body (els', il) ls), snd (foldl loop_body (els', il) ls))"
proof (induction ls arbitrary: els' il)
  case Nil
  then show ?case by simp
next
  case (Cons l ls)
  obtain e2 i2 where st: "loop_body (els', il) l = (e2, i2)"
    by (cases "loop_body (els', il) l")
  from Cons.prems have a: "loop_body (els @ els', il) l = (els @ e2, i2)"
    using loop_body_frame(1) [of els' il els l] st by simp
  from Cons.prems have b: "e2 \<noteq> [] \<or> \<not> i2"
    using loop_body_frame(2) [of els' il l] st by simp
  show ?case
    using Cons.IH [OF b] a st by simp
qed

lemma loop_body_other:
  "\<not> startsWith l (ascii ''* '') \<Longrightarrow> loop_body (els, il) l = (els @ [renderLine l], False)"
  by (simp add: loop_body_def)

lemma foldl_loop_after_list:
  assumes "case post of [] \<Rightarrow> True | l # _ \<Rightarrow> \<not> startsWith l (ascii ''* '')"
  shows "fst (foldl loop_body (els, il) post) = els @ render_lines post"
proof (cases post)
  case Nil
  then show ?thesis by (simp add: render_lines_def)
next
  case (Cons l ls)
  with assms have nl: "\<not> startsWith l (ascii ''* '')" by simp
  have "foldl loop_body (els, il) post = foldl loop_body (els @ [renderLine l], False) ls"
    using Cons nl by (simp add: loop_body_other)
  also have "\<dots> = (els @ fst (foldl loop_body ([renderLine l], False) ls),
                    snd (foldl loop_body ([renderLine l], False) ls))"
    by (rule foldl_loop_frame) simp
  finally show ?thesis
    using Cons nl by (simp add: render_lines_def loop_body_other)
qed

lemma title_a_b:
  "foldl loop_body (els, il) [ascii ''### Title'', ascii ''* a'', ascii ''* b''] =
     (els @ [Some (H3 (ascii ''Title'')), Some (Ul [Some (Li (ascii ''a'')), Some (Li (ascii ''b''))])], True)"
  by (simp add: loop_body_def renderLine_def ascii_def startsWith_def substring_def toArray_def butlast_append)

text \<open>
  C5: an input whose lines contain \<open>### Title\<close>, \<open>* a\<close>, \<open>* b\<close> in a row, followed by the end
  of the input or by a line that is not a bullet, renders as what the lines before
  render to, then a heading block \<open>Title\<close>, then one list block with exactly the items
  \<open>a\<close> and \<open>b\<close>, then what the lines after render to.
\<close>

theorem heading_then_one_list:
  assumes "split content 0x0A = pre @ [ascii ''### Title'', ascii ''* a'', ascii ''* b''] @ post"
    and "case post of [] \<Rightarrow> True | l # _ \<Rightarrow> \<not> startsWith l (ascii ''* '')"
  shows "MarkdownRenderer content =
           render_lines pre @
           [Some (H3 (ascii ''Title'')), Some (Ul [Some (Li (ascii ''a'')), Some (Li (ascii ''b''))])] @
           render_lines post"
proof -
  obtain e0 i0 where st: "foldl loop_body ([], False) pre = (e0, i0)"
    by (cases "foldl loop_body ([], False) pre")
  have "render_lines (pre @ [ascii ''### Title'', ascii ''* a'', ascii ''* b''] @ post) =
          fst (foldl loop_body
                 (e0 @ [Some (H3 (ascii ''Title'')),
                        Some (Ul [Some (Li (ascii ''a'')), Some (Li (ascii ''b''))])], True) post)"
    unfolding render_lines_def foldl_append st title_a_b ..
  also have "\<dots> = (e0 @ [Some (H3 (ascii ''Title'')),
                        Some (Ul [Some (Li (ascii ''a'')), Some (Li (ascii ''b''))])]) @ render_lines post"
    by (rule foldl_loop_after_list [OF assms(2)])
  finally show ?thesis
    using st assms(1) by (simp add: MarkdownRenderer_def render_lines_def)
qed

text \<open>The string of the specification, \<open>"### Title\n* a\n* b\n"\<close>.\<close>

theorem heading_then_one_list_witness:
  "MarkdownRenderer (ascii ''### Title'' @ [0x0A] @ ascii ''* a'' @ [0x0A] @ ascii ''* b'' @ [0x0A]) =
     [Some (H3 (ascii ''Title'')), Some (Ul [Some (Li (ascii ''a'')), Some (Li (ascii ''b''))]), None]"
proof -
  have s: "split (ascii ''### Title'' @ [0x0A] @ ascii ''* a'' @ [0x0A] @ ascii ''* b'' @ [0x0A]) 0x0A =
        [] @ [ascii ''### Title'', ascii ''* a'', ascii ''* b''] @ [[]]"
    by (simp add: ascii_def)
  have p: "case [[]] of [] \<Rightarrow> True | l # _ \<Rightarrow> \<not> startsWith l (ascii ''* '')"
    by (simp add: startsWith_def ascii_def)
  have r0: "render_lines [] = []" by (simp add: render_lines_def)
  have r1: "render_lines [[]] = [None]"
    by (simp add: render_lines_def loop_body_def renderLine_def startsWith_def ascii_def trim_def)
  show ?thesis
    using heading_then_one_list [OF s p] r0 r1 by simp
qed

section \<open>Invariants of the workflow\<close>

lemma messages_nonempty:
  "msg_not_image \<noteq> []" "msg_no_image \<noteq> []" "msg_identifying \<noteq> []"
  "msg_identify_failed \<noteq> []" "msg_empty_name \<noteq> []" "msg_analyzing \<noteq> []"
  "msg_analysis_failed \<noteq> []" "msg_empty_goal \<noteq> []" "msg_advising \<noteq> []"
  "msg_advice_failed \<noteq> []"
  by (simp_all add: msg_not_image_def msg_no_image_def msg_identifying_def
      msg_identify_failed_def msg_empty_name_def msg_analyzing_def msg_analysis_failed_def
      msg_empty_goal_def msg_advising_def msg_advice_failed_def ascii_def)

lemma consistent_mount: "consistent (mount item now)"
  by (simp add: consistent_def mount_def apiKey_changed_def useApiKey_effect_def initial_def
      split: option.splits stored.splits)

lemma view_step:
  "consistent s \<Longrightarrow> renderContent s = StepView st \<Longrightarrow>
     loadingMessage s = None \<and> error s = None \<and> inflight s = None \<and> currentStep s = st"
  by (auto simp: consistent_def renderContent_def truthy_def split: if_splits option.splits)

lemma view_error:
  "consistent s \<Longrightarrow> renderContent s = ErrorView \<Longrightarrow> loadingMessage s = None \<and> inflight s = None"
  by (auto simp: consistent_def renderContent_def truthy_def split: if_splits option.splits)

lemma consistent_fire: "consistent s \<Longrightarrow> consistent (fire ev s)"
proof (cases ev)
  case (SubmitKey key now)
  assume c: "consistent s"
  show ?thesis
  proof (cases "renderContent s = StepView API_KEY")
    case True
    from view_step [OF c True] c show ?thesis
      by (simp add: SubmitKey True consistent_def handleSubmit_def saveApiKey_def apiKey_changed_def)
  next
    case False
    with c show ?thesis by (simp add: SubmitKey)
  qed
next
  case (ImageChange index picked)
  assume c: "consistent s"
  show ?thesis
  proof (cases "renderContent s = StepView UPLOAD")
    case True
    from view_step [OF c True] c show ?thesis
      by (simp add: ImageChange True consistent_def handleImageChange_def messages_nonempty
          split: option.splits)
  next
    case False
    with c show ?thesis by (simp add: ImageChange)
  qed
next
  case (ReaderDone index captured result)
  assume "consistent s"
  then show ?thesis by (auto simp: ReaderDone consistent_def reader_onloadend_def)
next
  case NextUpload
  assume c: "consistent s"
  show ?thesis
  proof (cases "renderContent s = StepView UPLOAD")
    case True
    from view_step [OF c True] c show ?thesis
      by (simp add: NextUpload True consistent_def handleIdentification_def started_def
          messages_nonempty)
  next
    case False
    with c show ?thesis by (simp add: NextUpload)
  qed
next
  case (SetPlantName name)
  assume "consistent s"
  then show ?thesis by (auto simp: SetPlantName consistent_def)
next
  case NextConfirm
  assume c: "consistent s"
  show ?thesis
  proof (cases "renderContent s = StepView CONFIRM")
    case True
    from view_step [OF c True] c show ?thesis
      by (simp add: NextConfirm True consistent_def handleAnalysis_def started_def
          messages_nonempty)
  next
    case False
    with c show ?thesis by (simp add: NextConfirm)
  qed
next
  case NextDiagnose
  assume c: "consistent s"
  show ?thesis
  proof (cases "renderContent s = StepView DIAGNOSE")
    case True
    from view_step [OF c True] c show ?thesis
      by (simp add: NextDiagnose True consistent_def diagnose_onNext_def)
  next
    case False
    with c show ?thesis by (simp add: NextDiagnose)
  qed
next
  case (SetUserGoal goal)
  assume "consistent s"
  then show ?thesis by (auto simp: SetUserGoal consistent_def)
next
  case AnalyzeGoal
  assume c: "consistent s"
  show ?thesis
  proof (cases "renderContent s = StepView GOAL")
    case True
    from view_step [OF c True] c show ?thesis
      by (simp add: AnalyzeGoal True consistent_def handleGoalAdvice_def started_def
          messages_nonempty)
  next
    case False
    with c show ?thesis by (simp add: AnalyzeGoal)
  qed
next
  case Reset
  assume c: "consistent s"
  show ?thesis
  proof (cases "renderContent s = StepView GOAL")
    case True
    from view_step [OF c True] c show ?thesis
      by (simp add: Reset True consistent_def resetWorkflow_def)
  next
    case False
    with c show ?thesis by (simp add: Reset)
  qed
next
  case Recover
  assume c: "consistent s"
  show ?thesis
  proof (cases "renderContent s = ErrorView")
    case True
    from view_error [OF c True] c show ?thesis
      by (simp add: Recover True consistent_def errorView_onReset_def)
  next
    case False
    with c show ?thesis by (simp add: Recover)
  qed
next
  case (Settled partsOutcome gen)
  assume c: "consistent s"
  then show ?thesis
    by (auto simp: Settled consistent_def handleIdentification_resume_def
        handleAnalysis_resume_def handleGoalAdvice_resume_def Let_def messages_nonempty
        split: option.splits call.splits sum.splits)
qed

lemma consistent_run: "consistent s \<Longrightarrow> consistent (run evs s)"
  unfolding run_def
  by (induction evs arbitrary: s) (simp_all add: consistent_fire)

lemma rank_fire:
  assumes c: "consistent s" and ev: "ev \<noteq> Reset" "ev \<noteq> Recover"
  shows "rank (currentStep s) \<le> rank (currentStep (fire ev s))"
proof (cases ev)
  case (SubmitKey key now)
  show ?thesis
  proof (cases "renderContent s = StepView API_KEY")
    case True
    from view_step [OF c True] show ?thesis
      by (simp add: SubmitKey True)
  next
    case False
    then show ?thesis by (simp add: SubmitKey)
  qed
next
  case (Settled partsOutcome gen)
  with c show ?thesis
    by (auto simp: consistent_def handleIdentification_resume_def
        handleAnalysis_resume_def handleGoalAdvice_resume_def Let_def
        split: option.splits call.splits sum.splits)
qed (use ev in \<open>auto simp: handleImageChange_def reader_onloadend_def handleIdentification_def
       handleAnalysis_def handleGoalAdvice_def started_def diagnose_onNext_def
       renderContent_def split: option.splits if_splits\<close>)

section \<open>Concrete runs\<close>

lemmas exec_defs =
  run_def mount_def initial_def useApiKey_effect_def apiKey_changed_def saveApiKey_def
  handleSubmit_def handleImageChange_def reader_onloadend_def handleIdentification_def
  handleIdentification_resume_def handleAnalysis_def handleAnalysis_resume_def
  handleGoalAdvice_def handleGoalAdvice_resume_def errorView_onReset_def diagnose_onNext_def
  resetWorkflow_def renderContent_def started_def truthy_def array_set_def
  identifyPlant_def analyzePlantHealth_def getGoalOrientedAdvice_def
  trim_def isWhiteSpace_def isLineTerminator_def startsWith_def ascii_def
  sample_image_def answering_def rejecting_def

lemma after_to_confirm:
  "run to_confirm (mount None 0) =
     \<lparr> apiKey = Some (ascii ''k''), currentStep = CONFIRM,
       imageFiles = [Some sample_image, None], imageDataUrls = [None, None],
       plantName = ascii ''Rose'', healthAnalysis = [], goalAnalysis = [], userGoal = [],
       loadingMessage = None, error = None,
       storage = Some (Cred (ascii ''k'') 0), inflight = None \<rparr>"
  by (simp add: to_confirm_def exec_defs messages_nonempty)

lemma after_to_goal:
  "run to_goal (mount None 0) =
     \<lparr> apiKey = Some (ascii ''k''), currentStep = GOAL,
       imageFiles = [Some sample_image, None], imageDataUrls = [None, None],
       plantName = ascii ''Rose'', healthAnalysis = ascii '' Rose '', goalAnalysis = [], userGoal = [],
       loadingMessage = None, error = None,
       storage = Some (Cred (ascii ''k'') 0), inflight = None \<rparr>"
proof -
  have "run to_goal (mount None 0) =
          run [NextConfirm, Settled (Inr []) answering, NextDiagnose] (run to_confirm (mount None 0))"
    by (simp add: to_goal_def run_def)
  then show ?thesis
    unfolding after_to_confirm
    by (simp add: exec_defs messages_nonempty)
qed

lemma after_failed_analysis:
  "run (to_confirm @ [NextConfirm, Settled (Inr []) rejecting]) (mount None 0) =
     \<lparr> apiKey = Some (ascii ''k''), currentStep = CONFIRM,
       imageFiles = [Some sample_image, None], imageDataUrls = [None, None],
       plantName = ascii ''Rose'', healthAnalysis = [], goalAnalysis = [], userGoal = [],
       loadingMessage = None, error = Some msg_analysis_failed,
       storage = Some (Cred (ascii ''k'') 0), inflight = None \<rparr>"
proof -
  have "run (to_confirm @ [NextConfirm, Settled (Inr []) rejecting]) (mount None 0) =
          run [NextConfirm, Settled (Inr []) rejecting] (run to_confirm (mount None 0))"
    by (simp add: run_def)
  then show ?thesis
    unfolding after_to_confirm
    by (simp add: exec_defs messages_nonempty)
qed


lemma list_ex_filter: "list_ex pred xs = (length (filter pred xs) \<noteq> 0)"
  by (induction xs) auto

text \<open>
  C1: when the awaited work of \<open>handleIdentification\<close>, \<open>handleAnalysis\<close> or
  \<open>handleGoalAdvice\<close> fails (the external call rejects, or the preparation of the image
  parts does), the step after the handler is the step before it, \<open>error\<close> is the handler's
  failure message, which is not empty, and the part of the handler that runs before the
  call leaves the step alone as well. Whatever the outcome, \<open>loadingMessage\<close> is \<open>null\<close>
  once the handler has resumed.
\<close>

theorem failed_call_keeps_step:
  "(identifyPlant gen (apiKey s) ps = Inl e \<longrightarrow>
      currentStep (handleIdentification_resume (Inr ps) gen s) = currentStep s \<and>
      error (handleIdentification_resume (Inr ps) gen s) = Some msg_identify_failed) \<and>
   currentStep (handleIdentification_resume (Inl e) gen s) = currentStep s \<and>
   error (handleIdentification_resume (Inl e) gen s) = Some msg_identify_failed \<and>
   msg_identify_failed \<noteq> [] \<and>
   (analyzePlantHealth gen (apiKey s) ps (plantName s) = Inl e \<longrightarrow>
      currentStep (handleAnalysis_resume (Inr ps) gen s) = currentStep s \<and>
      error (handleAnalysis_resume (Inr ps) gen s) = Some msg_analysis_failed) \<and>
   currentStep (handleAnalysis_resume (Inl e) gen s) = currentStep s \<and>
   error (handleAnalysis_resume (Inl e) gen s) = Some msg_analysis_failed \<and>
   msg_analysis_failed \<noteq> [] \<and>
   (getGoalOrientedAdvice gen (apiKey s) (plantName s) (healthAnalysis s) (userGoal s) = Inl e \<longrightarrow>
      currentStep (handleGoalAdvice_resume gen s) = currentStep s \<and>
      error (handleGoalAdvice_resume gen s) = Some msg_advice_failed) \<and>
   msg_advice_failed \<noteq> [] \<and>
   currentStep (fst (handleIdentification s)) = currentStep s \<and>
   currentStep (fst (handleAnalysis s)) = currentStep s \<and>
   currentStep (fst (handleGoalAdvice s)) = currentStep s \<and>
   loadingMessage (handleIdentification_resume outcome gen s) = None \<and>
   loadingMessage (handleAnalysis_resume outcome gen s) = None \<and>
   loadingMessage (handleGoalAdvice_resume gen s) = None"
proof -
  have ident: "currentStep (handleIdentification_resume (Inl e) gen s) = currentStep s"
    "error (handleIdentification_resume (Inl e) gen s) = Some msg_identify_failed"
    "identifyPlant gen (apiKey s) ps = Inl e \<longrightarrow>
      currentStep (handleIdentification_resume (Inr ps) gen s) = currentStep s \<and>
      error (handleIdentification_resume (Inr ps) gen s) = Some msg_identify_failed"
    "loadingMessage (handleIdentification_resume outcome gen s) = None"
    by (simp_all add: handleIdentification_resume_def Let_def split: sum.splits)
  have analysis: "currentStep (handleAnalysis_resume (Inl e) gen s) = currentStep s"
    "error (handleAnalysis_resume (Inl e) gen s) = Some msg_analysis_failed"
    "analyzePlantHealth gen (apiKey s) ps (plantName s) = Inl e \<longrightarrow>
      currentStep (handleAnalysis_resume (Inr ps) gen s) = currentStep s \<and>
      error (handleAnalysis_resume (Inr ps) gen s) = Some msg_analysis_failed"
    "loadingMessage (handleAnalysis_resume outcome gen s) = None"
    by (simp_all add: handleAnalysis_resume_def Let_def split: sum.splits)
  have advice:
    "getGoalOrientedAdvice gen (apiKey s) (plantName s) (healthAnalysis s) (userGoal s) = Inl e \<longrightarrow>
      currentStep (handleGoalAdvice_resume gen s) = currentStep s \<and>
      error (handleGoalAdvice_resume gen s) = Some msg_advice_failed"
    "loadingMessage (handleGoalAdvice_resume gen s) = None"
    by (simp_all add: handleGoalAdvice_resume_def Let_def split: sum.splits)
  have before: "currentStep (fst (handleIdentification s)) = currentStep s"
    "currentStep (fst (handleAnalysis s)) = currentStep s"
    "currentStep (fst (handleGoalAdvice s)) = currentStep s"
    by (simp_all add: handleIdentification_def handleAnalysis_def handleGoalAdvice_def)
  show ?thesis
    using ident analysis advice before messages_nonempty by blast
qed

theorem failed_call_keeps_step_witness:
  "identifyPlant rejecting (apiKey (run to_goal (mount None 0))) [] = Inl (Exn (ascii ''503'')) \<and>
   analyzePlantHealth rejecting (apiKey (run to_goal (mount None 0))) []
     (plantName (run to_goal (mount None 0))) = Inl (Exn (ascii ''503'')) \<and>
   getGoalOrientedAdvice rejecting (apiKey (run to_goal (mount None 0)))
     (plantName (run to_goal (mount None 0))) (healthAnalysis (run to_goal (mount None 0)))
     (userGoal (run to_goal (mount None 0))) = Inl (Exn (ascii ''503'')) \<and>
   currentStep (handleIdentification_resume (Inr []) rejecting (run to_goal (mount None 0))) = GOAL \<and>
   currentStep (handleAnalysis_resume (Inr []) rejecting (run to_goal (mount None 0))) = GOAL \<and>
   currentStep (handleGoalAdvice_resume rejecting (run to_goal (mount None 0))) = GOAL \<and>
   error (handleGoalAdvice_resume rejecting (run to_goal (mount None 0))) = Some msg_advice_failed \<and>
   loadingMessage (handleGoalAdvice_resume rejecting (run to_goal (mount None 0))) = None"
proof -
  have f: "identifyPlant rejecting k ps = Inl (Exn (ascii ''503''))"
    "analyzePlantHealth rejecting k ps n = Inl (Exn (ascii ''503''))"
    "getGoalOrientedAdvice rejecting k n h g = Inl (Exn (ascii ''503''))" for k ps n h g
    by (simp_all add: identifyPlant_def analyzePlantHealth_def getGoalOrientedAdvice_def
        rejecting_def)
  have st: "currentStep (run to_goal (mount None 0)) = GOAL"
    by (simp add: after_to_goal)
  show ?thesis
    using failed_call_keeps_step [of rejecting "run to_goal (mount None 0)" "[]"
        "Exn (ascii ''503'')" "Inr []"] f st
    by simp
qed

text \<open>
  C2: with a record \<open>{key, timestamp}\<close> in storage, loading at time \<open>now\<close> sets \<open>apiKey\<close> to
  the stored key and keeps the record if \<open>now - timestamp\<close> is less than 30 minutes;
  otherwise \<open>apiKey\<close> stays \<open>null\<close> and the record is removed.
\<close>

theorem stored_credential_expiry:
  "(now - timestamp < 30 * 60 * 1000 \<longrightarrow>
      apiKey (useApiKey_effect now (initial (Some (Cred key timestamp)))) = Some key \<and>
      storage (useApiKey_effect now (initial (Some (Cred key timestamp)))) =
        Some (Cred key timestamp)) \<and>
   (\<not> now - timestamp < 30 * 60 * 1000 \<longrightarrow>
      apiKey (useApiKey_effect now (initial (Some (Cred key timestamp)))) = None \<and>
      storage (useApiKey_effect now (initial (Some (Cred key timestamp)))) = None)"
  by (simp add: useApiKey_effect_def initial_def SESSION_TIMEOUT_MS_def)

theorem stored_credential_expiry_witness:
  "apiKey (useApiKey_effect (29 * 60 * 1000) (initial (Some (Cred (ascii ''X'') 0)))) =
     Some (ascii ''X'') \<and>
   storage (useApiKey_effect (29 * 60 * 1000) (initial (Some (Cred (ascii ''X'') 0)))) =
     Some (Cred (ascii ''X'') 0) \<and>
   apiKey (useApiKey_effect (31 * 60 * 1000) (initial (Some (Cred (ascii ''X'') 0)))) = None \<and>
   storage (useApiKey_effect (31 * 60 * 1000) (initial (Some (Cred (ascii ''X'') 0)))) = None"
  using stored_credential_expiry [of "29 * 60 * 1000" 0 "ascii ''X''"]
    stored_credential_expiry [of "31 * 60 * 1000" 0 "ascii ''X''"]
  by simp

text \<open>
  C3, as stated, fails: after a failed analysis the button of the error view takes the
  step from \<open>CONFIRM\<close> back to \<open>UPLOAD\<close>, and that button is not the reset action.
\<close>

theorem step_regresses_on_recovery:
  "currentStep (run (to_confirm @ [NextConfirm, Settled (Inr []) rejecting]) (mount None 0)) = CONFIRM \<and>
   currentStep (fire Recover
      (run (to_confirm @ [NextConfirm, Settled (Inr []) rejecting]) (mount None 0))) = UPLOAD \<and>
   rank UPLOAD < rank CONFIRM \<and> Recover \<noteq> Reset"
  unfolding after_failed_analysis
  by (simp add: renderContent_def truthy_def errorView_onReset_def messages_nonempty)

text \<open>
  C3 (amended): from start-up on, no event other than the reset action and the button of
  the error view moves the step backward in the order
  \<open>API_KEY < UPLOAD < CONFIRM < DIAGNOSE < GOAL\<close>.
\<close>

theorem step_never_regresses:
  "ev \<noteq> Reset \<Longrightarrow> ev \<noteq> Recover \<Longrightarrow>
   rank (currentStep (run evs (mount item now))) \<le>
   rank (currentStep (fire ev (run evs (mount item now))))"
  by (rule rank_fire [OF consistent_run [OF consistent_mount]])

theorem step_never_regresses_witness:
  "NextConfirm \<noteq> Reset \<and> NextConfirm \<noteq> Recover \<and>
   rank (currentStep (run to_confirm (mount None 0))) \<le>
   rank (currentStep (fire NextConfirm (run to_confirm (mount None 0)))) \<and>
   currentStep (run to_confirm (mount None 0)) = CONFIRM"
proof -
  have a: "NextConfirm \<noteq> Reset" and b: "NextConfirm \<noteq> Recover" by simp_all
  have c: "currentStep (run to_confirm (mount None 0)) = CONFIRM"
    by (simp add: after_to_confirm)
  from step_never_regresses [OF a b, of to_confirm None 0] a b c show ?thesis by blast
qed

text \<open>
  C4, as stated, fails: \<open>resetWorkflow\<close> sets the step to \<open>UPLOAD\<close> also when there is no
  credential at all, and the reset button of the \<open>GOAL\<close> view does so also when the stored
  credential is more than 30 minutes old (a load at that time finds none).
\<close>

theorem reset_ignores_credential:
  "apiKey (mount None 0) = None \<and> storage (mount None 0) = None \<and>
   currentStep (resetWorkflow (mount None 0)) = UPLOAD \<and>
   renderContent (run to_goal (mount None 0)) = StepView GOAL \<and>
   apiKey (mount (storage (run to_goal (mount None 0))) (31 * 60 * 1000)) = None \<and>
   currentStep (fire Reset (run to_goal (mount None 0))) = UPLOAD \<and>
   UPLOAD \<noteq> API_KEY"
  unfolding after_to_goal
  by (simp add: exec_defs SESSION_TIMEOUT_MS_def)

text \<open>
  C4 (amended): from any state, \<open>resetWorkflow\<close> sets the images, \<open>plantName\<close>,
  \<open>healthAnalysis\<close>, \<open>userGoal\<close>, \<open>goalAnalysis\<close>, \<open>loadingMessage\<close> and \<open>error\<close> to their
  initial values and the step to \<open>UPLOAD\<close>; it neither reads nor changes the credential.
\<close>

theorem reset_clears_fields:
  "imageFiles (resetWorkflow s) = [None, None] \<and>
   imageDataUrls (resetWorkflow s) = [None, None] \<and>
   plantName (resetWorkflow s) = [] \<and>
   healthAnalysis (resetWorkflow s) = [] \<and>
   userGoal (resetWorkflow s) = [] \<and>
   goalAnalysis (resetWorkflow s) = [] \<and>
   loadingMessage (resetWorkflow s) = None \<and>
   error (resetWorkflow s) = None \<and>
   currentStep (resetWorkflow s) = UPLOAD \<and>
   apiKey (resetWorkflow s) = apiKey s \<and>
   storage (resetWorkflow s) = storage s"
  by (simp add: resetWorkflow_def)

theorem reset_clears_fields_witness:
  "fire Reset (run to_goal (mount None 0)) = mount (Some (Cred (ascii ''k'') 0)) 0"
proof -
  have "fire Reset (run to_goal (mount None 0)) = resetWorkflow (run to_goal (mount None 0))"
    unfolding after_to_goal by (simp add: renderContent_def truthy_def)
  moreover have "resetWorkflow (run to_goal (mount None 0)) = mount (Some (Cred (ascii ''k'') 0)) 0"
    using reset_clears_fields [of "run to_goal (mount None 0)"]
    unfolding after_to_goal
    by (simp add: exec_defs SESSION_TIMEOUT_MS_def)
  ultimately show ?thesis by simp
qed

text \<open>
  C6: pressing next in the \<open>UPLOAD\<close> view with no image selected, or in the \<open>CONFIRM\<close>
  view with a plant name that is empty after trimming, changes nothing but \<open>error\<close>, which
  becomes the (non-empty) missing-input message: the step is the same and no call is
  started.
\<close>

theorem missing_input_blocks_next:
  "(renderContent s = StepView UPLOAD \<and> length (filter (\<lambda>f. f \<noteq> None) (imageFiles s)) = 0 \<longrightarrow>
      fire NextUpload s = s\<lparr>error := Some msg_no_image\<rparr> \<and>
      snd (handleIdentification s) = None \<and>
      currentStep (fire NextUpload s) = UPLOAD \<and> msg_no_image \<noteq> []) \<and>
   (renderContent s = StepView CONFIRM \<and> trim (plantName s) = [] \<longrightarrow>
      fire NextConfirm s = s\<lparr>error := Some msg_empty_name\<rparr> \<and>
      snd (handleAnalysis s) = None \<and>
      currentStep (fire NextConfirm s) = CONFIRM \<and> msg_empty_name \<noteq> [])"
  by (auto simp: handleIdentification_def handleAnalysis_def started_def list_ex_filter
      renderContent_def messages_nonempty split: if_splits)

theorem missing_input_blocks_next_witness:
  "renderContent (fire (SubmitKey (ascii ''k'') 0) (mount None 0)) = StepView UPLOAD \<and>
   length (filter (\<lambda>f. f \<noteq> None) (imageFiles (fire (SubmitKey (ascii ''k'') 0) (mount None 0)))) = 0 \<and>
   fire NextUpload (fire (SubmitKey (ascii ''k'') 0) (mount None 0)) =
     (fire (SubmitKey (ascii ''k'') 0) (mount None 0))\<lparr>error := Some msg_no_image\<rparr> \<and>
   renderContent (fire (SetPlantName (ascii ''  '')) (run to_confirm (mount None 0))) = StepView CONFIRM \<and>
   trim (plantName (fire (SetPlantName (ascii ''  '')) (run to_confirm (mount None 0)))) = [] \<and>
   fire NextConfirm (fire (SetPlantName (ascii ''  '')) (run to_confirm (mount None 0))) =
     (fire (SetPlantName (ascii ''  '')) (run to_confirm (mount None 0)))\<lparr>error := Some msg_empty_name\<rparr>"
proof -
  have u: "renderContent (fire (SubmitKey (ascii ''k'') 0) (mount None 0)) = StepView UPLOAD \<and>
     length (filter (\<lambda>f. f \<noteq> None) (imageFiles (fire (SubmitKey (ascii ''k'') 0) (mount None 0)))) = 0"
    by (simp add: exec_defs)
  have c: "renderContent (fire (SetPlantName (ascii ''  '')) (run to_confirm (mount None 0))) = StepView CONFIRM \<and>
     trim (plantName (fire (SetPlantName (ascii ''  '')) (run to_confirm (mount None 0)))) = []"
    unfolding after_to_confirm by (simp add: exec_defs)
  from u c
    missing_input_blocks_next [of "fire (SubmitKey (ascii ''k'') 0) (mount None 0)"]
    missing_input_blocks_next [of "fire (SetPlantName (ascii ''  '')) (run to_confirm (mount None 0))"]
  show ?thesis by blast
qed


text \<open>
  C7: in every state the workflow reaches from start-up, \<open>loadingMessage\<close> and \<open>error\<close>
  are not both set.
\<close>

theorem loading_and_error_exclusive:
  "\<not> (loadingMessage (run evs (mount item now)) \<noteq> None \<and>
      error (run evs (mount item now)) \<noteq> None)"
  using consistent_run [OF consistent_mount, of evs item now]
  by (auto simp: consistent_def)

theorem loading_and_error_exclusive_witness:
  "\<not> (loadingMessage (run (to_confirm @ [NextConfirm, Settled (Inr []) rejecting]) (mount None 0)) \<noteq> None \<and>
      error (run (to_confirm @ [NextConfirm, Settled (Inr []) rejecting]) (mount None 0)) \<noteq> None) \<and>
   error (run (to_confirm @ [NextConfirm, Settled (Inr []) rejecting]) (mount None 0)) =
     Some msg_analysis_failed \<and>
   loadingMessage (run (to_confirm @ [NextConfirm]) (mount None 0)) = Some msg_analyzing \<and>
   error (run (to_confirm @ [NextConfirm]) (mount None 0)) = None"
proof -
  have a: "error (run (to_confirm @ [NextConfirm, Settled (Inr []) rejecting]) (mount None 0)) =
     Some msg_analysis_failed"
    by (simp add: after_failed_analysis)
  have "run (to_confirm @ [NextConfirm]) (mount None 0) =
          fire NextConfirm (run to_confirm (mount None 0))"
    by (simp add: run_def)
  then have b: "loadingMessage (run (to_confirm @ [NextConfirm]) (mount None 0)) = Some msg_analyzing \<and>
     error (run (to_confirm @ [NextConfirm]) (mount None 0)) = None"
    unfolding after_to_confirm by (simp add: exec_defs)
  from loading_and_error_exclusive
      [of "to_confirm @ [NextConfirm, Settled (Inr []) rejecting]" None 0] a b
  show ?thesis by blast
qed

text \<open>
  C8: when the model answers with a text, \<open>identifyPlant\<close> returns the text trimmed,
  \<open>analyzePlantHealth\<close> and \<open>getGoalOrientedAdvice\<close> return it as it is.
\<close>

theorem only_identification_trims:
  "identifyPlant (\<lambda>_. Inr text) key imageParts = Inr (trim text) \<and>
   analyzePlantHealth (\<lambda>_. Inr text) key imageParts name = Inr text \<and>
   getGoalOrientedAdvice (\<lambda>_. Inr text) key name health goal = Inr text"
  by (simp add: identifyPlant_def analyzePlantHealth_def getGoalOrientedAdvice_def)

theorem only_identification_trims_witness:
  "identifyPlant (\<lambda>_. Inr (ascii '' Rose '')) None [] = Inr (ascii ''Rose'') \<and>
   analyzePlantHealth (\<lambda>_. Inr (ascii '' Rose '')) None [] [] = Inr (ascii '' Rose '') \<and>
   getGoalOrientedAdvice (\<lambda>_. Inr (ascii '' Rose '')) None [] [] [] = Inr (ascii '' Rose '') \<and>
   ascii ''Rose'' \<noteq> ascii '' Rose ''"
proof -
  have t: "trim (ascii '' Rose '') = ascii ''Rose''" and d: "ascii ''Rose'' \<noteq> ascii '' Rose ''"
    by (simp_all add: trim_def isWhiteSpace_def isLineTerminator_def ascii_def)
  from only_identification_trims [of "ascii '' Rose ''" None "[]" "[]" "[]" "[]"] t d
  show ?thesis by simp
qed

text \<open>
  C9, as stated, fails: submitting a blank key on the key screen surfaces no error; the
  state, \<open>error\<close> included, is what it was.
\<close>

theorem blank_key_surfaces_no_error:
  "trim (ascii ''  '') = [] \<and>
   renderContent (mount None 0) = StepView API_KEY \<and>
   fire (SubmitKey (ascii ''  '') 0) (mount None 0) = mount None 0 \<and>
   error (fire (SubmitKey (ascii ''  '') 0) (mount None 0)) = None"
  by (simp add: exec_defs)

text \<open>
  C9 (amended): submitting a key whose trimmed value is empty is ignored: the stored
  credential and the whole state are unchanged and no error is set. Submitting one whose
  trimmed value is not empty, on the key screen, stores the trimmed value with the
  current time, sets \<open>apiKey\<close> to it and, the key being new, moves the step to \<open>UPLOAD\<close>.
\<close>

theorem submit_key:
  "(trim key = [] \<longrightarrow> fire (SubmitKey key now) s = s) \<and>
   (trim key \<noteq> [] \<and> renderContent s = StepView API_KEY \<longrightarrow>
      storage (fire (SubmitKey key now) s) = Some (Cred (trim key) now) \<and>
      apiKey (fire (SubmitKey key now) s) = Some (trim key) \<and>
      truthy (apiKey (fire (SubmitKey key now) s)) \<and>
      (apiKey s \<noteq> Some (trim key) \<longrightarrow> currentStep (fire (SubmitKey key now) s) = UPLOAD))"
  by (auto simp: handleSubmit_def saveApiKey_def apiKey_changed_def truthy_def
      split: option.splits)

theorem submit_key_witness:
  "trim (ascii ''  '') = [] \<and>
   fire (SubmitKey (ascii ''  '') 5) (mount None 0) = mount None 0 \<and>
   trim (ascii '' k '') = ascii ''k'' \<and> ascii ''k'' \<noteq> [] \<and>
   renderContent (mount None 0) = StepView API_KEY \<and>
   apiKey (mount None 0) = None \<and>
   storage (fire (SubmitKey (ascii '' k '') 5) (mount None 0)) = Some (Cred (ascii ''k'') 5) \<and>
   apiKey (fire (SubmitKey (ascii '' k '') 5) (mount None 0)) = Some (ascii ''k'') \<and>
   currentStep (fire (SubmitKey (ascii '' k '') 5) (mount None 0)) = UPLOAD"
proof -
  have a: "trim (ascii ''  '') = []" and b: "trim (ascii '' k '') = ascii ''k''"
    and c: "ascii ''k'' \<noteq> []"
    by (simp_all add: trim_def isWhiteSpace_def isLineTerminator_def ascii_def)
  have d: "renderContent (mount None 0) = StepView API_KEY" and e: "apiKey (mount None 0) = None"
    by (simp_all add: exec_defs)
  from submit_key [of "ascii ''  ''" 5 "mount None 0"]
    submit_key [of "ascii '' k ''" 5 "mount None 0"] a b c d e
  show ?thesis by simp
qed

text \<open>
  C10: the button of the error view clears \<open>error\<close> and sets the step to \<open>UPLOAD\<close>; the
  images, \<open>plantName\<close>, \<open>healthAnalysis\<close>, \<open>userGoal\<close> and \<open>goalAnalysis\<close> keep their values,
  and so does every other field.
\<close>

theorem recovery_frame:
  "renderContent s = ErrorView \<longrightarrow>
     error (fire Recover s) = None \<and>
     currentStep (fire Recover s) = UPLOAD \<and>
     imageFiles (fire Recover s) = imageFiles s \<and>
     imageDataUrls (fire Recover s) = imageDataUrls s \<and>
     plantName (fire Recover s) = plantName s \<and>
     healthAnalysis (fire Recover s) = healthAnalysis s \<and>
     userGoal (fire Recover s) = userGoal s \<and>
     goalAnalysis (fire Recover s) = goalAnalysis s \<and>
     fire Recover s = s\<lparr>error := None, currentStep := UPLOAD\<rparr>"
  by (simp add: errorView_onReset_def)

theorem recovery_frame_witness:
  "renderContent (run (to_confirm @ [NextConfirm, Settled (Inr []) rejecting]) (mount None 0)) =
     ErrorView \<and>
   fire Recover (run (to_confirm @ [NextConfirm, Settled (Inr []) rejecting]) (mount None 0)) =
     (run to_confirm (mount None 0))\<lparr>currentStep := UPLOAD\<rparr>"
proof -
  have v: "renderContent (run (to_confirm @ [NextConfirm, Settled (Inr []) rejecting]) (mount None 0)) =
     ErrorView"
    unfolding after_failed_analysis
    by (simp add: renderContent_def truthy_def messages_nonempty)
  from recovery_frame [of "run (to_confirm @ [NextConfirm, Settled (Inr []) rejecting]) (mount None 0)"] v
  show ?thesis
    unfolding after_failed_analysis after_to_confirm by simp
qed

end
